theory Spec2Isabelle
  imports Main
begin

section \<open>Values shared by the packages\<close>

text \<open>
  The node is glue around libp2p, logrus and the Tracker of \<^verbatim>\<open>pkg/pubsub\<close>. A source
  function is embedded as the list of calls it makes on those collaborators, in program
  order; what a collaborator returns is a field of an environment record, so every
  error branch of the source is a branch of the model.
\<close>

type_synonym error = string
  \<comment> \<open>a non-nil Go error, as its message \<^verbatim>\<open>err.Error()\<close>\<close>

type_synonym peer_ID = string
  \<comment> \<open>libp2p \<^verbatim>\<open>type ID string\<close>\<close>

type_synonym Multiaddr = string

type_synonym protocol_ID = string

type_synonym Stream = nat
  \<comment> \<open>a handle for a \<^verbatim>\<open>network.Stream\<close>\<close>

record AddrInfo =
  ID :: peer_ID
  Addrs :: "Multiaddr list"

record PeerEvent =
  AddrInfo :: AddrInfo
  Action :: string
  Source :: string

text \<open>
  \<^verbatim>\<open>type OracleNode struct\<close>: the fields that are plain values. The host, the DHT,
  the Tracker and the peer channel are collaborators.
\<close>

record OracleNode =
  Protocol :: protocol_ID
  IsStaked :: bool

datatype Activity = ActivityJoined | ActivityLeft

text \<open>
  Modelled from the spec: the declaration of \<^verbatim>\<open>pubsub.NodeData\<close> is not among the
  sources; the fields are those of section 3 of the specification, under the names the
  callers use (\<^verbatim>\<open>PeerId\<close>, \<^verbatim>\<open>EthAddress\<close>, \<^verbatim>\<open>IsStaked\<close>, \<^verbatim>\<open>SelfIdentified\<close>).
\<close>

record NodeData =
  PeerId :: peer_ID
  EthAddress :: string
  Multiaddrs :: Multiaddr
  IsStaked :: bool
  SelfIdentified :: bool
  Activity :: Activity
  LastUpdated :: nat

datatype level = DebugLevel | InfoLevel | WarnLevel | ErrorLevel

datatype logarg = ArgStr string | ArgID peer_ID | ArgInfo AddrInfo | ArgErr error

datatype handler = handleStream_handler | ReceiveNodeData_handler | GossipNodeData_handler

type_synonym IpfsDHT = nat
  \<comment> \<open>a handle for the \<^verbatim>\<open>*dht.IpfsDHT\<close> that \<^verbatim>\<open>dht.New\<close> builds\<close>

datatype goroutine =
    monitorRoutingTable_go
  | bootstrap_go AddrInfo
  | ListenToNodeTracker_go
  | handleDiscoveredPeers_go
  | Discover_go

text \<open>The calls a function makes on its collaborators, each with its arguments.\<close>

datatype call =
    Logrus level string "logarg list"
  | Log_Println string
  | Connect AddrInfo
  | ClosePeer peer_ID
  | NewStream peer_ID protocol_ID
  | Write Stream string
  | Close Stream
  | Sleep nat
  | WithTimeout nat
  | cancel
  | TryAddPeer peer_ID bool bool
  | PeerChan_send PeerEvent
  | AddOrUpdateNodeData NodeData bool
  | GetNodeData string
  | Left NodeData
  | Joined NodeData
  | HandleNodeData NodeData
  | DumpNodeData
  | SetStreamHandler protocol_ID handler
  | Notify_NodeTracker
  | New_DHT protocol_ID
  | Set_PeerAdded
  | Set_PeerRemoved
  | Bootstrap
  | WaitGroup_Add nat
  | WaitGroup_Done
  | WaitGroup_Wait
  | WithMDNS
  | SubscribeToTopics
  | Go goroutine

text \<open>\<^verbatim>\<open>strings.HasPrefix(s, prefix)\<close> of the Go standard library.\<close>

definition HasPrefix :: "string \<Rightarrow> string \<Rightarrow> bool" where
  "HasPrefix s pre = (length s \<ge> length pre \<and> take (length pre) s = pre)"

text \<open>The calls that write to the Tracker or to one of its records.\<close>

fun mutates_Tracker :: "call \<Rightarrow> bool" where
  "mutates_Tracker (AddOrUpdateNodeData _ _) = True"
| "mutates_Tracker (Left _) = True"
| "mutates_Tracker (Joined _) = True"
| "mutates_Tracker (HandleNodeData _) = True"
| "mutates_Tracker _ = False"

definition tracker_calls :: "call list \<Rightarrow> call list" where
  "tracker_calls tr = filter mutates_Tracker tr"

fun is_error_log :: "call \<Rightarrow> bool" where
  "is_error_log (Logrus ErrorLevel _ _) = True"
| "is_error_log _ = False"

definition error_logs :: "call list \<Rightarrow> call list" where
  "error_logs tr = filter is_error_log tr"


section \<open>The collaborators\<close>

text \<open>
  What the collaborators return, per call and argument. \<^verbatim>\<open>ID_String\<close> is libp2p's
  \<^verbatim>\<open>peer.ID.String\<close>. \<^verbatim>\<open>AddrInfoFromP2pAddr\<close> is libp2p's: with every error it
  returns the nil pointer, so \<^verbatim>\<open>Inl\<close> stands for \<^verbatim>\<open>(nil, err)\<close> and \<^verbatim>\<open>Inr\<close> for a
  pointer to the \<^verbatim>\<open>AddrInfo\<close>. \<^verbatim>\<open>handleStreamData\<close>, \<^verbatim>\<open>NewNodeData\<close>,
  \<^verbatim>\<open>AddOrUpdateNodeData\<close>, \<^verbatim>\<open>GetNodeData\<close>, \<^verbatim>\<open>GetSelfNodeDataJson\<close>,
  \<^verbatim>\<open>GetBootNodesMultiAddress\<close>, \<^verbatim>\<open>WithMDNS\<close>, \<^verbatim>\<open>SubscribeToTopics\<close>,
  \<^verbatim>\<open>GetPriorityAddress\<close> behind \<^verbatim>\<open>GetMultiAddrs\<close>, \<^verbatim>\<open>Joined\<close> and the
  configuration belong to files of the repository that are not among the sources;
  \<^verbatim>\<open>NodeDataSyncProtocol\<close> and \<^verbatim>\<open>NodeGossipTopic\<close> stand for the value of
  \<^verbatim>\<open>config.ProtocolWithVersion\<close> at the constant of that name.
\<close>

record env =
  ID_String :: "peer_ID \<Rightarrow> string"
  host_ID :: peer_ID
  handleStreamData :: "Stream \<Rightarrow> error + (peer_ID \<times> NodeData)"
  RemoteMultiaddr :: "Stream \<Rightarrow> Multiaddr"
  NewNodeData :: "Multiaddr \<Rightarrow> peer_ID \<Rightarrow> string \<Rightarrow> Activity \<Rightarrow> NodeData"
  AddOrUpdateNodeData_err :: "NodeData \<Rightarrow> bool \<Rightarrow> error option"
  GetNodeData_res :: "string \<Rightarrow> NodeData option"
  Connect_err :: "AddrInfo \<Rightarrow> error option"
  ClosePeer_err :: "peer_ID \<Rightarrow> error option"
  dht_New :: "error + IpfsDHT"
  Bootstrap_err :: "error option"
  AddrInfoFromP2pAddr :: "Multiaddr \<Rightarrow> error + AddrInfo"
  TryAddPeer_res :: "peer_ID \<Rightarrow> bool \<times> error option"
  NewStream_res :: "peer_ID \<Rightarrow> protocol_ID \<Rightarrow> error + Stream"
  GetSelfNodeDataJson :: "bool \<Rightarrow> string"
  Write_err :: "Stream \<Rightarrow> string \<Rightarrow> error option"
  Close_err :: "Stream \<Rightarrow> error option"
  GetBootNodesMultiAddress :: "error + Multiaddr list"
  WithMDNS_err :: "error option"
  HasBootnodes :: bool
  SubscribeToTopics_err :: "error option"
  MasaPrefix :: protocol_ID
  NodeDataSyncProtocol :: protocol_ID
  NodeGossipTopic :: protocol_ID
  KeyManager_EthAddress :: string
  GetMultiAddrs :: Multiaddr
  Joined_res :: "NodeData \<Rightarrow> NodeData"


section \<open>Package network: the DHT and its bootstrap\<close>

text \<open>
  The constants of \<^verbatim>\<open>pkg/network\<close>: the bound on connection attempts, the delay
  between them in seconds, and the two actions of a \<^verbatim>\<open>PeerEvent\<close>.
\<close>

definition maxRetries :: nat where
  "maxRetries = 3"

definition retryDelay :: nat where
  "retryDelay = 5"

definition PeerAdded :: string where
  "PeerAdded = ''PeerAdded''"

definition PeerRemoved :: string where
  "PeerRemoved = ''PeerRemoved''"

text \<open>
  The two callbacks that \<^verbatim>\<open>WithDht\<close> installs on the routing table. The library
  calls them with the peer it has added or removed; each logs and then sends one
  \<^verbatim>\<open>PeerEvent\<close> on \<^verbatim>\<open>peerChan\<close>.
\<close>

definition RoutingTable_PeerAdded :: "env \<Rightarrow> peer_ID \<Rightarrow> call list" where
  "RoutingTable_PeerAdded env p =
     (let pe = \<lparr>AddrInfo = \<lparr>ID = p, Addrs = []\<rparr>, Action = PeerAdded, Source = ''kdht''\<rparr>
      in [Logrus InfoLevel ''Peer added to DHT: %s'' [ArgStr (ID_String env p)],
          PeerChan_send pe])"

definition RoutingTable_PeerRemoved :: "env \<Rightarrow> peer_ID \<Rightarrow> call list" where
  "RoutingTable_PeerRemoved env p =
     (let pe = \<lparr>AddrInfo = \<lparr>ID = p, Addrs = []\<rparr>, Action = PeerRemoved, Source = ''kdht''\<rparr>
      in [Logrus InfoLevel ''Peer removed from DHT: %s'' [ArgID p],
          PeerChan_send pe])"

text \<open>The events a list of calls sends on the peer channel.\<close>

fun sent :: "call list \<Rightarrow> PeerEvent list" where
  "sent [] = []"
| "sent (PeerChan_send pe # tr) = pe # sent tr"
| "sent (_ # tr) = sent tr"

text \<open>
  The streams that a list of calls leaves open, given those open before it: a
  \<^verbatim>\<open>NewStream\<close> that succeeds opens the stream it returns, \<^verbatim>\<open>Close\<close> closes one.
\<close>

fun open_streams :: "env \<Rightarrow> call list \<Rightarrow> Stream list \<Rightarrow> Stream list" where
  "open_streams env [] opened = opened"
| "open_streams env (NewStream p proto # tr) opened =
     (case NewStream_res env p proto of
        Inr stream \<Rightarrow> open_streams env tr (stream # opened)
      | Inl err \<Rightarrow> open_streams env tr opened)"
| "open_streams env (Close stream # tr) opened = open_streams env tr (remove1 stream opened)"
| "open_streams env (_ # tr) opened = open_streams env tr opened"

text \<open>
  The goroutine that the loop of \<^verbatim>\<open>WithDht\<close> starts for one bootstrap peer, with the
  value of \<^verbatim>\<open>counter\<close> it captures. The deferred calls run when the goroutine returns,
  the last deferred first. The second component is what the goroutine adds to
  \<^verbatim>\<open>peerConnectionCount\<close>.
\<close>

definition bootstrap_attempt ::
  "env \<Rightarrow> protocol_ID \<Rightarrow> bool \<Rightarrow> AddrInfo \<Rightarrow> nat \<Rightarrow> call list \<times> nat" where
  "bootstrap_attempt env protocolId isStaked peerInfo counter =
     (let deferred = [WaitGroup_Done, cancel] in
      case Connect_err env peerInfo of
        Some err \<Rightarrow>
          (let counter = counter + 1 in
           ([WithTimeout 30, Connect peerInfo,
             Logrus ErrorLevel ''Failed to connect to bootstrap peer %s: %v''
               [ArgID (ID peerInfo), ArgErr err]] @
            (if counter \<ge> maxRetries then deferred
             else Sleep retryDelay # deferred), 0))
      | None \<Rightarrow>
          (case NewStream_res env (ID peerInfo) protocolId of
             Inl err \<Rightarrow>
               ([WithTimeout 30, Connect peerInfo,
                 Logrus InfoLevel ''Connection established with node:'' [ArgInfo peerInfo],
                 NewStream (ID peerInfo) protocolId,
                 Logrus ErrorLevel ''Error opening stream:'' [ArgErr err]] @ deferred, 0)
           | Inr stream \<Rightarrow>
               (let deferred =
                      Close stream #
                      (case Close_err env stream of
                         Some err \<Rightarrow> [Logrus ErrorLevel ''Error closing stream:'' [ArgErr err]]
                       | None \<Rightarrow> []) @ deferred;
                    data = GetSelfNodeDataJson env isStaked
                in ([WithTimeout 30, Connect peerInfo,
                     Logrus InfoLevel ''Connection established with node:'' [ArgInfo peerInfo],
                     NewStream (ID peerInfo) protocolId,
                     Write stream data] @
                    (case Write_err env stream data of
                       Some err \<Rightarrow>
                         Logrus ErrorLevel ''Error writing to stream:'' [ArgErr err] # deferred
                     | None \<Rightarrow> deferred), 1))))"

text \<open>
  The \<^verbatim>\<open>for\<close> loop of \<^verbatim>\<open>WithDht\<close> over the bootstrap addresses: the calls of the
  loop itself, the peers for which it has started a goroutine, and the panic that ends
  it, if any. When \<^verbatim>\<open>AddrInfoFromP2pAddr\<close> fails the loop logs the error and goes on
  to read \<^verbatim>\<open>peerInfo.ID\<close> through the nil pointer.
\<close>

fun bootstrap_loop :: "env \<Rightarrow> Multiaddr list \<Rightarrow> call list \<times> AddrInfo list \<times> string option" where
  "bootstrap_loop env [] = ([], [], None)"
| "bootstrap_loop env (peerAddr # rest) =
     (case AddrInfoFromP2pAddr env peerAddr of
        Inl err \<Rightarrow>
          ([Logrus ErrorLevel ''kdht: %s'' [ArgErr err]], [],
           Some ''invalid memory address or nil pointer dereference'')
      | Inr peerInfo \<Rightarrow>
          if ID peerInfo = host_ID env then
            (case bootstrap_loop env rest of
               (tr, started, panic) \<Rightarrow>
                 (Logrus InfoLevel ''DHT Skipping connect to self'' [] # tr, started, panic))
          else
            (case bootstrap_loop env rest of
               (tr, started, panic) \<Rightarrow>
                 ([TryAddPeer (ID peerInfo) True False,
                   (case TryAddPeer_res env (ID peerInfo) of
                      (added, Some err) \<Rightarrow>
                        Logrus WarnLevel ''Failed to add bootstrap peer %s to DHT: %v''
                          [ArgID (ID peerInfo), ArgErr err]
                    | (added, None) \<Rightarrow>
                        if \<not> added then
                          Logrus WarnLevel ''Bootstrap peer %s was not added to DHT''
                            [ArgID (ID peerInfo)]
                        else
                          Logrus InfoLevel ''Successfully added bootstrap peer %s to DHT''
                            [ArgID (ID peerInfo)]),
                   WaitGroup_Add 1,
                   Go (bootstrap_go peerInfo)] @ tr,
                  peerInfo # started, panic)))"

text \<open>
  The started goroutines run concurrently with the loop and with each other; the model
  runs them one after the other, in the order they were started, before
  \<^verbatim>\<open>wg.Wait()\<close> returns. Each starts with \<^verbatim>\<open>counter\<close> at 0.
\<close>

fun run_attempts :: "env \<Rightarrow> protocol_ID \<Rightarrow> bool \<Rightarrow> AddrInfo list \<Rightarrow> call list \<times> nat" where
  "run_attempts env protocolId isStaked [] = ([], 0)"
| "run_attempts env protocolId isStaked (peerInfo # started) =
     (case bootstrap_attempt env protocolId isStaked peerInfo 0 of
        (tr, n) \<Rightarrow>
          (case run_attempts env protocolId isStaked started of
             (tr', n') \<Rightarrow> (tr @ tr', n + n')))"

datatype WithDht_result = Return "IpfsDHT option" "error option" | Panic string

text \<open>
  \<^verbatim>\<open>func WithDht(ctx, host, bootstrapNodes, protocolId, prefix, peerChan, isStaked)\<close>.
  The host and the context act through the environment, the channel through the
  \<^verbatim>\<open>PeerChan_send\<close> calls of the callbacks.
\<close>

definition WithDht ::
  "env \<Rightarrow> Multiaddr list \<Rightarrow> protocol_ID \<Rightarrow> protocol_ID \<Rightarrow> bool \<Rightarrow> call list \<times> WithDht_result" where
  "WithDht env bootstrapNodes protocolId prefix isStaked =
     (case dht_New env of
        Inl err \<Rightarrow> ([New_DHT prefix], Return None (Some err))
      | Inr kademliaDHT \<Rightarrow>
          (let tr0 = [New_DHT prefix, Go monitorRoutingTable_go, Set_PeerAdded,
                      Set_PeerRemoved, Bootstrap] in
           case Bootstrap_err env of
             Some err \<Rightarrow> (tr0, Return None (Some err))
           | None \<Rightarrow>
               (case bootstrap_loop env bootstrapNodes of
                  (tr1, started, Some panic) \<Rightarrow> (tr0 @ tr1, Panic panic)
                | (tr1, started, None) \<Rightarrow>
                    (case run_attempts env protocolId isStaked started of
                       (tr2, peerConnectionCount) \<Rightarrow>
                         (tr0 @ tr1 @ tr2 @ [WaitGroup_Wait] @
                          (if length bootstrapNodes > 0 \<and> peerConnectionCount = 0 then
                             [Log_Println
                                ''Unable to connect to a boot node at this time. Waiting...'']
                           else []),
                          Return (Some kademliaDHT) None)))))"


section \<open>Package masa: the oracle node\<close>

text \<open>\<^verbatim>\<open>func (node *OracleNode) handleStream(stream network.Stream)\<close>\<close>

definition handleStream :: "env \<Rightarrow> Stream \<Rightarrow> call list" where
  "handleStream env stream =
     (case handleStreamData env stream of
        Inl err \<Rightarrow>
          if HasPrefix err ''un-staked'' then []
          else [Logrus ErrorLevel ''Failed to read stream: %v'' [ArgErr err]]
      | Inr (remotePeer, nodeData) \<Rightarrow>
          if ID_String env remotePeer \<noteq> ID_String env (PeerId nodeData) then
            [Logrus WarnLevel ''Received data from unexpected peer %s'' [ArgID remotePeer]]
          else
            let multiAddr = RemoteMultiaddr env stream;
                newNodeData =
                  (NewNodeData env multiAddr remotePeer (EthAddress nodeData) ActivityJoined)
                    \<lparr>IsStaked := IsStaked nodeData\<rparr>
            in AddOrUpdateNodeData newNodeData False #
               (case AddOrUpdateNodeData_err env newNodeData False of
                  Some err \<Rightarrow> [Logrus ErrorLevel ''%v'' [ArgErr err]]
                | None \<Rightarrow>
                    [Logrus InfoLevel ''handleStream -> Received data from:''
                       [ArgStr (ID_String env remotePeer)]]))"

text \<open>The calls that act on the network.\<close>

fun is_network_call :: "call \<Rightarrow> bool" where
  "is_network_call (Connect _) = True"
| "is_network_call (ClosePeer _) = True"
| "is_network_call (NewStream _ _) = True"
| "is_network_call (Write _ _) = True"
| "is_network_call (Close _) = True"
| "is_network_call _ = False"

definition network_calls :: "call list \<Rightarrow> call list" where
  "network_calls tr = filter is_network_call tr"

text \<open>
  \<^verbatim>\<open>func (node *OracleNode) handleDiscoveredPeers()\<close>. Each turn of the loop blocks in
  a \<^verbatim>\<open>select\<close> on the peer channel and on the context; the argument lists, turn by
  turn, which case the \<^verbatim>\<open>select\<close> takes. When the list is used up no case is ready:
  the goroutine stays blocked in the loop.
\<close>

datatype select_case = PeerChan_recv PeerEvent | Context_Done

datatype loop_status = Returned | Blocked

text \<open>The branch \<^verbatim>\<open>case peer := <-node.PeerChan\<close> of the \<^verbatim>\<open>select\<close>.\<close>

definition case_PeerChan :: "env \<Rightarrow> PeerEvent \<Rightarrow> call list" where
  "case_PeerChan env peer =
     Logrus DebugLevel ''Peer Event for: %s, Action: %s''
       [ArgStr (ID_String env (ID (AddrInfo peer))), ArgStr (Action peer)] #
     (if Action peer = PeerAdded then
        Connect (AddrInfo peer) #
        (case Connect_err env (AddrInfo peer) of
           Some err \<Rightarrow>
             Logrus ErrorLevel ''Connection failed for peer: %s %v''
               [ArgStr (ID_String env (ID (AddrInfo peer))), ArgErr err] #
             ClosePeer (ID (AddrInfo peer)) #
             (case ClosePeer_err env (ID (AddrInfo peer)) of
                Some err' \<Rightarrow> [Logrus ErrorLevel ''%v'' [ArgErr err']]
              | None \<Rightarrow> [])
         | None \<Rightarrow> [])
      else [])"

fun handleDiscoveredPeers :: "env \<Rightarrow> select_case list \<Rightarrow> call list \<times> loop_status" where
  "handleDiscoveredPeers env [] = ([], Blocked)"
| "handleDiscoveredPeers env (Context_Done # sel) = ([], Returned)"
| "handleDiscoveredPeers env (PeerChan_recv peer # sel) =
     (case handleDiscoveredPeers env sel of
        (tr, status) \<Rightarrow> (case_PeerChan env peer @ tr, status))"

text \<open>The events the loop has received when the context's case is taken, or all of them.\<close>

fun received :: "select_case list \<Rightarrow> PeerEvent list" where
  "received [] = []"
| "received (Context_Done # sel) = []"
| "received (PeerChan_recv peer # sel) = peer # received sel"


text \<open>The stream handlers that a list of calls installs on the host, in order.\<close>

fun registered :: "call list \<Rightarrow> (protocol_ID \<times> handler) list" where
  "registered [] = []"
| "registered (SetStreamHandler proto h # tr) = (proto, h) # registered tr"
| "registered (_ # tr) = registered tr"

datatype Start_result = Start_Return "error option" | Start_Panic string

text \<open>
  \<^verbatim>\<open>func (node *OracleNode) Start() (err error)\<close>: its calls and what it returns. The
  assignments to \<^verbatim>\<open>node.DHT\<close> and \<^verbatim>\<open>node.StartTime\<close> are not calls.
\<close>

definition Start :: "env \<Rightarrow> OracleNode \<Rightarrow> call list \<times> Start_result" where
  "Start env node =
     (let tr0 = [Logrus InfoLevel ''Starting node with ID: %s'' [ArgStr (GetMultiAddrs env)]] in
      case GetBootNodesMultiAddress env of
        Inl err \<Rightarrow> (tr0, Start_Return (Some err))
      | Inr bootNodeAddrs \<Rightarrow>
          (let tr1 =
                 tr0 @
                 [SetStreamHandler (Protocol node) handleStream_handler,
                  SetStreamHandler (NodeDataSyncProtocol env) ReceiveNodeData_handler] @
                 (if OracleNode.IsStaked node then
                    [SetStreamHandler (NodeGossipTopic env) GossipNodeData_handler]
                  else []) @
                 [Notify_NodeTracker, Go ListenToNodeTracker_go, Go handleDiscoveredPeers_go]
           in
           case WithDht env bootNodeAddrs (Protocol node) (MasaPrefix env)
                  (OracleNode.IsStaked node) of
             (tr2, Panic panic) \<Rightarrow> (tr1 @ tr2, Start_Panic panic)
           | (tr2, Return dht (Some err)) \<Rightarrow> (tr1 @ tr2, Start_Return (Some err))
           | (tr2, Return dht None) \<Rightarrow>
               (case WithMDNS_err env of
                  Some err \<Rightarrow> (tr1 @ tr2 @ [WithMDNS], Start_Return (Some err))
                | None \<Rightarrow>
                    (let self = ID_String env (host_ID env);
                         tr3 =
                           tr1 @ tr2 @ [WithMDNS, Go Discover_go] @
                           (if HasBootnodes env then
                              (let nodeData =
                                     (case GetNodeData_res env self of
                                        None \<Rightarrow>
                                          (NewNodeData env (GetMultiAddrs env) (host_ID env)
                                             (KeyManager_EthAddress env) ActivityJoined)
                                            \<lparr>IsStaked := OracleNode.IsStaked node,
                                             SelfIdentified := True\<rparr>
                                      | Some nodeData \<Rightarrow> nodeData)
                               in [GetNodeData self, Joined nodeData,
                                   HandleNodeData (Joined_res env nodeData)])
                            else []) @
                           [SubscribeToTopics]
                     in (tr3, Start_Return (SubscribeToTopics_err env))))))"


section \<open>Command masa-node\<close>

text \<open>
  The goroutine of \<^verbatim>\<open>main\<close> that waits for SIGINT or SIGTERM on the channel
  \<^verbatim>\<open>c\<close>: its calls once the signal has arrived. \<^verbatim>\<open>main\<close> itself blocks on
  \<^verbatim>\<open>ctx.Done()\<close>, which the last of these calls releases.
\<close>

definition main_on_signal :: "env \<Rightarrow> call list" where
  "main_on_signal env =
     (let self = ID_String env (host_ID env) in
      GetNodeData self #
      (case GetNodeData_res env self of
         Some nodeData \<Rightarrow> [Left nodeData]
       | None \<Rightarrow> []) @
      [DumpNodeData, cancel])"


section \<open>Concrete environments\<close>

text \<open>An environment to run the node's functions in: every collaborator succeeds.\<close>

definition quiet_env :: env where
  "quiet_env =
     \<lparr>ID_String = (\<lambda>p. p),
      host_ID = ''QmSelf'',
      handleStreamData = (\<lambda>s. Inl ''EOF''),
      RemoteMultiaddr = (\<lambda>s. ''/ip4/10.0.0.7/tcp/4001''),
      NewNodeData = (\<lambda>addr p eth act.
        \<lparr>PeerId = p, EthAddress = eth, Multiaddrs = addr, IsStaked = False,
         SelfIdentified = False, Activity = act, LastUpdated = 0\<rparr>),
      AddOrUpdateNodeData_err = (\<lambda>nd allow. None),
      GetNodeData_res = (\<lambda>p. None),
      Connect_err = (\<lambda>ai. None),
      ClosePeer_err = (\<lambda>p. None),
      dht_New = Inr 1,
      Bootstrap_err = None,
      AddrInfoFromP2pAddr = (\<lambda>m.
        if m = ''/ip4/10.0.0.8/tcp/4001/p2p/QmA'' then
          Inr \<lparr>ID = ''QmA'', Addrs = [''/ip4/10.0.0.8/tcp/4001'']\<rparr>
        else if m = ''/ip4/10.0.0.9/tcp/4001/p2p/QmB'' then
          Inr \<lparr>ID = ''QmB'', Addrs = [''/ip4/10.0.0.9/tcp/4001'']\<rparr>
        else Inl ''invalid p2p multiaddr''),
      TryAddPeer_res = (\<lambda>p. (True, None)),
      NewStream_res = (\<lambda>p proto. Inr 7),
      GetSelfNodeDataJson = (\<lambda>staked. ''{}''),
      Write_err = (\<lambda>s d. None),
      Close_err = (\<lambda>s. None),
      GetBootNodesMultiAddress = Inr [],
      WithMDNS_err = None,
      HasBootnodes = False,
      SubscribeToTopics_err = None,
      MasaPrefix = ''/masa'',
      NodeDataSyncProtocol = ''/masa/nodedata_sync/v0.0.1'',
      NodeGossipTopic = ''/masa/gossip/v0.0.1'',
      KeyManager_EthAddress = ''0xself'',
      GetMultiAddrs = ''/ip4/10.0.0.1/tcp/4001/p2p/QmSelf'',
      Joined_res = (\<lambda>nd. nd\<lparr>Activity := ActivityJoined\<rparr>)\<rparr>"

definition payload :: "peer_ID \<Rightarrow> NodeData" where
  "payload p =
     \<lparr>PeerId = p, EthAddress = ''0xabc'', Multiaddrs = '''', IsStaked = True,
      SelfIdentified = False, Activity = ActivityJoined, LastUpdated = 0\<rparr>"


section \<open>The stream handler\<close>

text \<open>
  C2. When \<^verbatim>\<open>handleStreamData\<close> has returned a payload, \<^verbatim>\<open>handleStream\<close> compares the
  remote peer of the connection with the \<^verbatim>\<open>PeerId\<close> inside the payload (by their
  \<^verbatim>\<open>String()\<close> forms, which libp2p's base58 encoding keeps distinct for distinct
  identities). If they differ, no call on the Tracker is made; if they are the same,
  exactly one call is made: \<^verbatim>\<open>AddOrUpdateNodeData\<close> with the record built from the
  payload and \<^verbatim>\<open>allowDowngrade = false\<close>.
\<close>

theorem handleStream_identity_check:
  assumes "handleStreamData env stream = Inr (remotePeer, nodeData)"
    and "inj (ID_String env)"
  shows "(remotePeer \<noteq> PeerId nodeData \<longrightarrow> tracker_calls (handleStream env stream) = []) \<and>
         (remotePeer = PeerId nodeData \<longrightarrow>
            tracker_calls (handleStream env stream) =
              [AddOrUpdateNodeData
                 ((NewNodeData env (RemoteMultiaddr env stream) remotePeer
                     (EthAddress nodeData) ActivityJoined)\<lparr>IsStaked := IsStaked nodeData\<rparr>)
                 False])"
proof (intro conjI impI)
  assume "remotePeer \<noteq> PeerId nodeData"
  with assms(2) have "ID_String env remotePeer \<noteq> ID_String env (PeerId nodeData)"
    by (simp add: inj_eq)
  with assms(1) show "tracker_calls (handleStream env stream) = []"
    by (simp add: handleStream_def tracker_calls_def)
next
  assume "remotePeer = PeerId nodeData"
  with assms(1) show "tracker_calls (handleStream env stream) =
      [AddOrUpdateNodeData
         ((NewNodeData env (RemoteMultiaddr env stream) remotePeer
             (EthAddress nodeData) ActivityJoined)\<lparr>IsStaked := IsStaked nodeData\<rparr>)
         False]"
    by (simp add: handleStream_def tracker_calls_def Let_def split: option.split)
qed

theorem handleStream_identity_check_witness:
  "tracker_calls
     (handleStream (quiet_env\<lparr>handleStreamData := (\<lambda>s. Inr (''QmA'', payload ''QmB''))\<rparr>) 1)
     = [] \<and>
   tracker_calls
     (handleStream (quiet_env\<lparr>handleStreamData := (\<lambda>s. Inr (''QmA'', payload ''QmA''))\<rparr>) 1)
     = [AddOrUpdateNodeData
          \<lparr>PeerId = ''QmA'', EthAddress = ''0xabc'', Multiaddrs = ''/ip4/10.0.0.7/tcp/4001'',
           IsStaked = True, SelfIdentified = False, Activity = ActivityJoined,
           LastUpdated = 0\<rparr> False]"
proof -
  let ?mismatch = "quiet_env\<lparr>handleStreamData := (\<lambda>s. Inr (''QmA'', payload ''QmB''))\<rparr>"
  let ?match = "quiet_env\<lparr>handleStreamData := (\<lambda>s. Inr (''QmA'', payload ''QmA''))\<rparr>"
  have i1: "inj (ID_String ?mismatch)" and i2: "inj (ID_String ?match)"
    by (simp_all add: quiet_env_def inj_def)
  have d1: "handleStreamData ?mismatch 1 = Inr (''QmA'', payload ''QmB'')"
    and d2: "handleStreamData ?match 1 = Inr (''QmA'', payload ''QmA'')"
    by simp_all
  from handleStream_identity_check [OF d1 i1] handleStream_identity_check [OF d2 i2]
  show ?thesis
    by (simp add: payload_def quiet_env_def)
qed

text \<open>
  C3. When \<^verbatim>\<open>handleStreamData\<close> fails, \<^verbatim>\<open>handleStream\<close> makes no call on the Tracker.
  If the message of the error starts with \<^verbatim>\<open>un-staked\<close> it makes no call at all, so
  nothing is logged; for any other error its only call is one \<^verbatim>\<open>logrus.Errorf\<close> that
  carries the error.
\<close>

theorem handleStream_unstaked_silent:
  assumes "handleStreamData env stream = Inl err"
  shows "tracker_calls (handleStream env stream) = [] \<and>
         (HasPrefix err ''un-staked'' \<longrightarrow> handleStream env stream = []) \<and>
         (\<not> HasPrefix err ''un-staked'' \<longrightarrow>
            handleStream env stream =
              [Logrus ErrorLevel ''Failed to read stream: %v'' [ArgErr err]] \<and>
            error_logs (handleStream env stream) = handleStream env stream)"
  using assms by (simp add: handleStream_def tracker_calls_def error_logs_def)

theorem handleStream_unstaked_silent_witness:
  "HasPrefix ''un-staked peer QmA'' ''un-staked'' \<and>
   handleStream (quiet_env\<lparr>handleStreamData := (\<lambda>s. Inl ''un-staked peer QmA'')\<rparr>) 1 = [] \<and>
   \<not> HasPrefix ''EOF'' ''un-staked'' \<and>
   handleStream quiet_env 1 = [Logrus ErrorLevel ''Failed to read stream: %v'' [ArgErr ''EOF'']]"
proof -
  let ?unstaked = "quiet_env\<lparr>handleStreamData := (\<lambda>s. Inl ''un-staked peer QmA'')\<rparr>"
  have d1: "handleStreamData ?unstaked 1 = Inl ''un-staked peer QmA''" by simp
  have d2: "handleStreamData quiet_env 1 = Inl ''EOF''"
    by (simp add: quiet_env_def)
  have p1: "HasPrefix ''un-staked peer QmA'' ''un-staked''"
    and p2: "\<not> HasPrefix ''EOF'' ''un-staked''"
    by (simp_all add: HasPrefix_def)
  from handleStream_unstaked_silent [OF d1] handleStream_unstaked_silent [OF d2] p1 p2
  show ?thesis by simp
qed

section \<open>The discovery dispatcher\<close>

lemma fst_handleDiscoveredPeers:
  "fst (handleDiscoveredPeers env sel) = concat (map (case_PeerChan env) (received sel))"
  by (induction env sel rule: handleDiscoveredPeers.induct) (simp_all add: case_prod_unfold)

lemma snd_handleDiscoveredPeers:
  "snd (handleDiscoveredPeers env sel) = Returned \<longleftrightarrow> Context_Done \<in> set sel"
  by (induction env sel rule: handleDiscoveredPeers.induct) (simp_all add: case_prod_unfold)

lemma network_calls_case_PeerChan:
  "network_calls (case_PeerChan env peer) =
     (if Action peer = PeerAdded then
        (case Connect_err env (AddrInfo peer) of
           None \<Rightarrow> [Connect (AddrInfo peer)]
         | Some err \<Rightarrow> [Connect (AddrInfo peer), ClosePeer (ID (AddrInfo peer))])
      else [])"
  by (simp add: case_PeerChan_def network_calls_def split: option.split)

text \<open>
  C6. The calls of the dispatcher loop are those of its received events, one event after
  the other. For an event whose action is \<^verbatim>\<open>PeerAdded\<close> the network calls are one
  \<^verbatim>\<open>Connect\<close> to the peer, followed by \<^verbatim>\<open>ClosePeer\<close> of that peer when the
  \<^verbatim>\<open>Connect\<close> failed, after which the loop goes on with the next event; for any other
  action, \<^verbatim>\<open>PeerRemoved\<close> among them, there is no network call. The loop returns
  exactly when the \<^verbatim>\<open>select\<close> takes the case of the cancelled context.
\<close>

theorem handleDiscoveredPeers_dispatch:
  "fst (handleDiscoveredPeers env sel) = concat (map (case_PeerChan env) (received sel)) \<and>
   network_calls (case_PeerChan env peer) =
     (if Action peer = PeerAdded then
        (case Connect_err env (AddrInfo peer) of
           None \<Rightarrow> [Connect (AddrInfo peer)]
         | Some err \<Rightarrow> [Connect (AddrInfo peer), ClosePeer (ID (AddrInfo peer))])
      else []) \<and>
   network_calls (case_PeerChan env (peer\<lparr>Action := PeerRemoved\<rparr>)) = [] \<and>
   (snd (handleDiscoveredPeers env sel) = Returned \<longleftrightarrow> Context_Done \<in> set sel)"
proof -
  have "PeerRemoved \<noteq> PeerAdded"
    by (simp add: PeerRemoved_def PeerAdded_def)
  then have "network_calls (case_PeerChan env (peer\<lparr>Action := PeerRemoved\<rparr>)) = []"
    by (simp add: network_calls_case_PeerChan)
  then show ?thesis
    using fst_handleDiscoveredPeers snd_handleDiscoveredPeers network_calls_case_PeerChan
    by blast
qed

theorem handleDiscoveredPeers_dispatch_witness:
  "network_calls (fst (handleDiscoveredPeers
      (quiet_env\<lparr>Connect_err := (\<lambda>ai. Some ''connection refused'')\<rparr>)
      [PeerChan_recv \<lparr>AddrInfo = \<lparr>ID = ''QmA'', Addrs = []\<rparr>, Action = PeerAdded,
                      Source = ''kdht''\<rparr>,
       PeerChan_recv \<lparr>AddrInfo = \<lparr>ID = ''QmB'', Addrs = []\<rparr>, Action = PeerRemoved,
                      Source = ''kdht''\<rparr>,
       Context_Done,
       PeerChan_recv \<lparr>AddrInfo = \<lparr>ID = ''QmC'', Addrs = []\<rparr>, Action = PeerAdded,
                      Source = ''mdns''\<rparr>])) =
     [Connect \<lparr>ID = ''QmA'', Addrs = []\<rparr>, ClosePeer ''QmA''] \<and>
   snd (handleDiscoveredPeers
      (quiet_env\<lparr>Connect_err := (\<lambda>ai. Some ''connection refused'')\<rparr>)
      [PeerChan_recv \<lparr>AddrInfo = \<lparr>ID = ''QmA'', Addrs = []\<rparr>, Action = PeerAdded,
                      Source = ''kdht''\<rparr>,
       PeerChan_recv \<lparr>AddrInfo = \<lparr>ID = ''QmB'', Addrs = []\<rparr>, Action = PeerRemoved,
                      Source = ''kdht''\<rparr>,
       Context_Done,
       PeerChan_recv \<lparr>AddrInfo = \<lparr>ID = ''QmC'', Addrs = []\<rparr>, Action = PeerAdded,
                      Source = ''mdns''\<rparr>]) = Returned"
proof -
  let ?env = "quiet_env\<lparr>Connect_err := (\<lambda>ai. Some ''connection refused'')\<rparr>"
  let ?a = "\<lparr>AddrInfo = \<lparr>ID = ''QmA'', Addrs = []\<rparr>, Action = PeerAdded, Source = ''kdht''\<rparr>"
  let ?b = "\<lparr>AddrInfo = \<lparr>ID = ''QmB'', Addrs = []\<rparr>, Action = PeerRemoved, Source = ''kdht''\<rparr>"
  let ?c = "\<lparr>AddrInfo = \<lparr>ID = ''QmC'', Addrs = []\<rparr>, Action = PeerAdded, Source = ''mdns''\<rparr>"
  let ?sel = "[PeerChan_recv ?a, PeerChan_recv ?b, Context_Done, PeerChan_recv ?c]"
  have r: "received ?sel = [?a, ?b]"
    by simp
  have n: "network_calls (tr @ tr') = network_calls tr @ network_calls tr'" for tr tr'
    by (simp add: network_calls_def)
  from handleDiscoveredPeers_dispatch [of ?env ?sel ?a]
  have 1: "fst (handleDiscoveredPeers ?env ?sel) = case_PeerChan ?env ?a @ case_PeerChan ?env ?b"
    and 2: "network_calls (case_PeerChan ?env ?a) =
              [Connect \<lparr>ID = ''QmA'', Addrs = []\<rparr>, ClosePeer ''QmA'']"
    and 3: "snd (handleDiscoveredPeers ?env ?sel) = Returned"
    by (simp_all only: r) simp_all
  from handleDiscoveredPeers_dispatch
         [of ?env ?sel "?a\<lparr>AddrInfo := \<lparr>ID = ''QmB'', Addrs = []\<rparr>\<rparr>"]
  have 4: "network_calls (case_PeerChan ?env ?b) = []"
    by simp
  show ?thesis
    by (simp only: 1 n 2 3 4) simp
qed


section \<open>The events of the routing table\<close>

text \<open>
  C8, as amended. The event that the routing table's callback sends for a peer added to
  the table has the action \<^verbatim>\<open>PeerAdded\<close>, the one for a peer removed from it has the
  action \<^verbatim>\<open>PeerRemoved\<close>; both carry the peer's identity with no address, and the
  source tag \<^verbatim>\<open>kdht\<close>.
\<close>

theorem RoutingTable_events_kdht:
  "sent (RoutingTable_PeerAdded env p) =
     [\<lparr>AddrInfo = \<lparr>ID = p, Addrs = []\<rparr>, Action = PeerAdded, Source = ''kdht''\<rparr>] \<and>
   sent (RoutingTable_PeerRemoved env p) =
     [\<lparr>AddrInfo = \<lparr>ID = p, Addrs = []\<rparr>, Action = PeerRemoved, Source = ''kdht''\<rparr>]"
  by (simp add: RoutingTable_PeerAdded_def RoutingTable_PeerRemoved_def)

text \<open>
  C8 as stated fails: the event sent when peer \<^verbatim>\<open>QmA\<close> is added carries \<^verbatim>\<open>kdht\<close>,
  which is not the tag \<^verbatim>\<open>routing-table\<close>.
\<close>

theorem RoutingTable_source_counterexample:
  "map Source (sent (RoutingTable_PeerAdded quiet_env ''QmA'')) = [''kdht''] \<and>
   map Source (sent (RoutingTable_PeerAdded quiet_env ''QmA'')) \<noteq> [''routing-table'']"
  by (simp add: RoutingTable_PeerAdded_def)


section \<open>The bootstrap connector\<close>

lemma bootstrap_attempt_no_leak:
  "open_streams env (fst (bootstrap_attempt env protocolId isStaked peerInfo counter)) [] = []"
  by (simp add: bootstrap_attempt_def Let_def split: option.split sum.split)

lemma bootstrap_attempt_Close_after_Write:
  assumes "Connect_err env peerInfo = None"
    and "NewStream_res env (ID peerInfo) protocolId = Inr stream"
  shows "\<exists>pre post.
           fst (bootstrap_attempt env protocolId isStaked peerInfo counter) =
             pre @ Write stream (GetSelfNodeDataJson env isStaked) # post \<and>
           NewStream (ID peerInfo) protocolId \<in> set pre \<and> Close stream \<in> set post"
proof -
  let ?pre = "[WithTimeout 30, Connect peerInfo,
               Logrus InfoLevel ''Connection established with node:'' [ArgInfo peerInfo],
               NewStream (ID peerInfo) protocolId]"
  from assms have "\<exists>post.
      fst (bootstrap_attempt env protocolId isStaked peerInfo counter) =
        ?pre @ Write stream (GetSelfNodeDataJson env isStaked) # post \<and> Close stream \<in> set post"
    by (simp add: bootstrap_attempt_def Let_def split: option.split)
  then show ?thesis
    by (metis list.set_intros(1,2))
qed

text \<open>
  C7. Whatever the collaborators return, the goroutine of a bootstrap attempt leaves no
  stream open when it returns. When the connection and the opening of the stream
  succeed, the stream is opened before the write and closed after it, whether the write
  fails or not.
\<close>

theorem bootstrap_attempt_closes_stream:
  "open_streams env (fst (bootstrap_attempt env protocolId isStaked peerInfo counter)) [] = [] \<and>
   (Connect_err env peerInfo = None \<longrightarrow>
    NewStream_res env (ID peerInfo) protocolId = Inr stream \<longrightarrow>
      (\<exists>pre post.
         fst (bootstrap_attempt env protocolId isStaked peerInfo counter) =
           pre @ Write stream (GetSelfNodeDataJson env isStaked) # post \<and>
         NewStream (ID peerInfo) protocolId \<in> set pre \<and> Close stream \<in> set post))"
  using bootstrap_attempt_no_leak bootstrap_attempt_Close_after_Write by blast

theorem bootstrap_attempt_closes_stream_witness:
  "Write_err (quiet_env\<lparr>Write_err := (\<lambda>s d. Some ''stream reset'')\<rparr>) 7 ''{}'' =
     Some ''stream reset'' \<and>
   (\<exists>pre post.
      fst (bootstrap_attempt (quiet_env\<lparr>Write_err := (\<lambda>s d. Some ''stream reset'')\<rparr>)
             ''/masa/oracle'' True \<lparr>ID = ''QmB'', Addrs = []\<rparr> 0) =
        pre @ Write 7 ''{}'' # post \<and>
      NewStream ''QmB'' ''/masa/oracle'' \<in> set pre \<and> Close 7 \<in> set post)"
proof -
  let ?env = "quiet_env\<lparr>Write_err := (\<lambda>s d. Some ''stream reset'')\<rparr>"
  let ?peerInfo = "\<lparr>ID = ''QmB'', Addrs = []\<rparr>"
  have c: "Connect_err ?env ?peerInfo = None"
    by (simp add: quiet_env_def)
  have n: "NewStream_res ?env (ID ?peerInfo) ''/masa/oracle'' = Inr 7"
    by (simp add: quiet_env_def)
  have j: "GetSelfNodeDataJson quiet_env True = ''{}''"
    by (simp add: quiet_env_def)
  from bootstrap_attempt_closes_stream [of ?env "''/masa/oracle''" True ?peerInfo 0 7] c n
  have "\<exists>pre post.
      fst (bootstrap_attempt ?env ''/masa/oracle'' True ?peerInfo 0) =
        pre @ Write 7 (GetSelfNodeDataJson ?env True) # post \<and>
      NewStream (ID ?peerInfo) ''/masa/oracle'' \<in> set pre \<and> Close 7 \<in> set post"
    by blast
  then show ?thesis
    by (simp add: j)
qed

lemma bootstrap_attempt_Connect_once:
  "length (filter (\<lambda>c. c = Connect peerInfo)
     (fst (bootstrap_attempt env protocolId isStaked peerInfo counter))) = 1"
  by (simp add: bootstrap_attempt_def Let_def split: option.split sum.split)

text \<open>
  C1 (the code does not retry). With the one bootstrap peer \<^verbatim>\<open>QmB\<close> and a
  \<^verbatim>\<open>Connect\<close> that fails, \<^verbatim>\<open>WithDht\<close> makes a single \<^verbatim>\<open>Connect\<close>, sleeps for
  \<^verbatim>\<open>retryDelay\<close> once, and the goroutine ends: \<^verbatim>\<open>counter\<close> reaches 1, below
  \<^verbatim>\<open>maxRetries\<close>, and no loop leads back to \<^verbatim>\<open>Connect\<close>.
\<close>

theorem WithDht_failed_Connect_not_retried:
  "WithDht (quiet_env\<lparr>Connect_err := (\<lambda>ai. Some ''dial backoff'')\<rparr>)
     [''/ip4/10.0.0.9/tcp/4001/p2p/QmB''] ''/masa/oracle'' ''/masa'' True =
   ([New_DHT ''/masa'', Go monitorRoutingTable_go, Set_PeerAdded, Set_PeerRemoved, Bootstrap,
     TryAddPeer ''QmB'' True False,
     Logrus InfoLevel ''Successfully added bootstrap peer %s to DHT'' [ArgID ''QmB''],
     WaitGroup_Add 1,
     Go (bootstrap_go \<lparr>ID = ''QmB'', Addrs = [''/ip4/10.0.0.9/tcp/4001'']\<rparr>),
     WithTimeout 30,
     Connect \<lparr>ID = ''QmB'', Addrs = [''/ip4/10.0.0.9/tcp/4001'']\<rparr>,
     Logrus ErrorLevel ''Failed to connect to bootstrap peer %s: %v''
       [ArgID ''QmB'', ArgErr ''dial backoff''],
     Sleep 5, WaitGroup_Done, cancel, WaitGroup_Wait,
     Log_Println ''Unable to connect to a boot node at this time. Waiting...''],
    Return (Some 1) None)"
  by (simp add: WithDht_def quiet_env_def bootstrap_attempt_def maxRetries_def retryDelay_def)

text \<open>
  C4 (the code does not skip). With a first bootstrap address that has no peer identity
  and a second one that resolves to \<^verbatim>\<open>QmB\<close>, \<^verbatim>\<open>WithDht\<close> logs the resolution error
  and panics on the nil \<^verbatim>\<open>peerInfo\<close>: the second address is never processed.
\<close>

theorem WithDht_unresolved_address_panics:
  "WithDht quiet_env [''/ip4/10.0.0.5/tcp/4001'', ''/ip4/10.0.0.9/tcp/4001/p2p/QmB'']
     ''/masa/oracle'' ''/masa'' True =
   ([New_DHT ''/masa'', Go monitorRoutingTable_go, Set_PeerAdded, Set_PeerRemoved, Bootstrap,
     Logrus ErrorLevel ''kdht: %s'' [ArgErr ''invalid p2p multiaddr'']],
    Panic ''invalid memory address or nil pointer dereference'')"
  by (simp add: WithDht_def quiet_env_def)

lemma bootstrap_loop_resolved:
  assumes "\<forall>a \<in> set bootstrapNodes. \<exists>peerInfo. AddrInfoFromP2pAddr env a = Inr peerInfo"
  shows "snd (snd (bootstrap_loop env bootstrapNodes)) = None"
  using assms
  by (induction env bootstrapNodes rule: bootstrap_loop.induct)
     (auto simp: case_prod_unfold split: sum.split)

text \<open>
  When the DHT is built and bootstrapped and every address resolves, \<^verbatim>\<open>WithDht\<close>
  returns the DHT and a nil error, whatever the connections do.
\<close>

lemma WithDht_returns_when_resolved:
  assumes "dht_New env = Inr kademliaDHT" and "Bootstrap_err env = None"
    and "\<forall>a \<in> set bootstrapNodes. \<exists>peerInfo. AddrInfoFromP2pAddr env a = Inr peerInfo"
  shows "snd (WithDht env bootstrapNodes protocolId prefix isStaked) =
           Return (Some kademliaDHT) None"
  using assms(1,2) bootstrap_loop_resolved [OF assms(3)]
  by (simp add: WithDht_def case_prod_unfold split: option.split)

text \<open>
  C5 (the code panics). With a single bootstrap address that has no peer identity, so
  that no bootstrap peer can be reached, \<^verbatim>\<open>WithDht\<close> does not return the DHT and a nil
  error: it panics.
\<close>

theorem WithDht_no_reachable_address_panics:
  "snd (WithDht quiet_env [''/ip4/10.0.0.5/tcp/4001''] ''/masa/oracle'' ''/masa'' True) =
     Panic ''invalid memory address or nil pointer dereference'' \<and>
   snd (WithDht quiet_env [''/ip4/10.0.0.5/tcp/4001''] ''/masa/oracle'' ''/masa'' True) \<noteq>
     Return (Some 1) None"
  by (simp add: WithDht_def quiet_env_def)


section \<open>The handlers that Start installs\<close>

lemma registered_append: "registered (tr @ tr') = registered tr @ registered tr'"
  by (induction tr rule: registered.induct) simp_all

lemma registered_bootstrap_attempt:
  "registered (fst (bootstrap_attempt env protocolId isStaked peerInfo counter)) = []"
  by (simp add: bootstrap_attempt_def Let_def split: option.split sum.split)

lemma registered_run_attempts:
  "registered (fst (run_attempts env protocolId isStaked started)) = []"
  by (induction started)
     (simp_all add: case_prod_unfold registered_append registered_bootstrap_attempt)

lemma registered_bootstrap_loop: "registered (fst (bootstrap_loop env bootstrapNodes)) = []"
  by (induction env bootstrapNodes rule: bootstrap_loop.induct)
     (simp_all add: case_prod_unfold split: sum.split option.split)

lemma registered_WithDht:
  "registered (fst (WithDht env bootstrapNodes protocolId prefix isStaked)) = []"
  by (simp add: WithDht_def Let_def case_prod_unfold registered_append registered_run_attempts
      registered_bootstrap_loop split: sum.split option.split)

lemma registered_Start:
  "registered (fst (Start env node)) =
     (case GetBootNodesMultiAddress env of
        Inl err \<Rightarrow> []
      | Inr bootNodeAddrs \<Rightarrow>
          [(Protocol node, handleStream_handler),
           (NodeDataSyncProtocol env, ReceiveNodeData_handler)] @
          (if OracleNode.IsStaked node then [(NodeGossipTopic env, GossipNodeData_handler)]
           else []))"
  by (simp add: Start_def Let_def case_prod_unfold registered_append registered_WithDht
      split: sum.split option.split WithDht_result.split)

text \<open>
  C10. Over a whole run of \<^verbatim>\<open>Start\<close>, \<^verbatim>\<open>GossipNodeData\<close> is installed as a stream
  handler only if the node is staked. Once the boot node addresses have been read,
  \<^verbatim>\<open>Start\<close> installs \<^verbatim>\<open>handleStream\<close> on the node's protocol and
  \<^verbatim>\<open>ReceiveNodeData\<close> on the node-data sync protocol, staked or not, then
  \<^verbatim>\<open>GossipNodeData\<close> on the gossip protocol if the node is staked, and no other
  handler, whatever happens later in \<^verbatim>\<open>Start\<close>. So, the gossip protocol being
  distinct from the other two, an unstaked node has no handler on it.
\<close>

theorem Start_gossip_handler_iff_staked:
  "(GossipNodeData_handler \<in> snd ` set (registered (fst (Start env node))) \<longrightarrow>
      OracleNode.IsStaked node) \<and>
   (GetBootNodesMultiAddress env = Inr bootNodeAddrs \<longrightarrow>
      registered (fst (Start env node)) =
        [(Protocol node, handleStream_handler),
         (NodeDataSyncProtocol env, ReceiveNodeData_handler)] @
        (if OracleNode.IsStaked node then [(NodeGossipTopic env, GossipNodeData_handler)]
         else [])) \<and>
   (\<not> OracleNode.IsStaked node \<longrightarrow>
    NodeGossipTopic env \<noteq> Protocol node \<longrightarrow>
    NodeGossipTopic env \<noteq> NodeDataSyncProtocol env \<longrightarrow>
      NodeGossipTopic env \<notin> fst ` set (registered (fst (Start env node))))"
  by (auto simp: registered_Start split: sum.splits if_splits)

theorem Start_gossip_handler_iff_staked_witness:
  "GetBootNodesMultiAddress quiet_env = Inr [] \<and>
   ''/masa/gossip/v0.0.1'' \<notin>
     fst ` set (registered (fst (Start quiet_env \<lparr>Protocol = ''/masa/oracle'', IsStaked = False\<rparr>))) \<and>
   registered (fst (Start quiet_env \<lparr>Protocol = ''/masa/oracle'', IsStaked = False\<rparr>)) =
     [(''/masa/oracle'', handleStream_handler),
      (''/masa/nodedata_sync/v0.0.1'', ReceiveNodeData_handler)] \<and>
   registered (fst (Start quiet_env \<lparr>Protocol = ''/masa/oracle'', IsStaked = True\<rparr>)) =
     [(''/masa/oracle'', handleStream_handler),
      (''/masa/nodedata_sync/v0.0.1'', ReceiveNodeData_handler),
      (''/masa/gossip/v0.0.1'', GossipNodeData_handler)]"
proof -
  have b: "GetBootNodesMultiAddress quiet_env = Inr []"
    by (simp add: quiet_env_def)
  have p: "NodeDataSyncProtocol quiet_env = ''/masa/nodedata_sync/v0.0.1''"
    "NodeGossipTopic quiet_env = ''/masa/gossip/v0.0.1''"
    by (simp_all add: quiet_env_def)
  from Start_gossip_handler_iff_staked
         [of quiet_env "\<lparr>Protocol = ''/masa/oracle'', IsStaked = False\<rparr>" "[]"]
       Start_gossip_handler_iff_staked
         [of quiet_env "\<lparr>Protocol = ''/masa/oracle'', IsStaked = True\<rparr>" "[]"] b p
  show ?thesis by simp
qed


section \<open>Shutdown\<close>

text \<open>
  C9, as amended. On the signal the goroutine asks the Tracker for the local node's
  record. If the Tracker has one, the goroutine marks it \<^verbatim>\<open>Left\<close>, then dumps the
  Tracker, then cancels the context; if the Tracker has none, it dumps the Tracker, then
  cancels the context.
\<close>

theorem main_on_signal_order:
  "(GetNodeData_res env (ID_String env (host_ID env)) = Some nodeData \<longrightarrow>
      main_on_signal env =
        [GetNodeData (ID_String env (host_ID env)), Left nodeData, DumpNodeData, cancel]) \<and>
   (GetNodeData_res env (ID_String env (host_ID env)) = None \<longrightarrow>
      main_on_signal env =
        [GetNodeData (ID_String env (host_ID env)), DumpNodeData, cancel])"
  by (simp add: main_on_signal_def Let_def)

theorem main_on_signal_order_witness:
  "main_on_signal (quiet_env\<lparr>GetNodeData_res := (\<lambda>p. Some (payload ''QmSelf''))\<rparr>) =
     [GetNodeData ''QmSelf'', Left (payload ''QmSelf''), DumpNodeData, cancel] \<and>
   main_on_signal quiet_env = [GetNodeData ''QmSelf'', DumpNodeData, cancel]"
proof -
  let ?env = "quiet_env\<lparr>GetNodeData_res := (\<lambda>p. Some (payload ''QmSelf''))\<rparr>"
  have s: "ID_String ?env (host_ID ?env) = ''QmSelf''"
    "ID_String quiet_env (host_ID quiet_env) = ''QmSelf''"
    by (simp_all add: quiet_env_def)
  have g: "GetNodeData_res ?env (ID_String ?env (host_ID ?env)) = Some (payload ''QmSelf'')"
    "GetNodeData_res quiet_env (ID_String quiet_env (host_ID quiet_env)) = None"
    by (simp_all add: quiet_env_def)
  from main_on_signal_order [of ?env "payload ''QmSelf''"]
       main_on_signal_order [of quiet_env "payload ''QmSelf''"] g
  show ?thesis
    by (simp add: s)
qed

text \<open>
  C9 as stated fails: when the Tracker holds no record of the local node, nothing is
  marked \<^verbatim>\<open>Left\<close> before the dump and the cancellation.
\<close>

theorem main_on_signal_counterexample:
  "main_on_signal quiet_env = [GetNodeData ''QmSelf'', DumpNodeData, cancel] \<and>
   tracker_calls (main_on_signal quiet_env) = []"
  by (simp add: main_on_signal_def quiet_env_def tracker_calls_def)


end
